theory Spec2Isabelle
  imports Complex_Main
begin

section \<open>SolView: the data acquisition and formatting code of the wallet and token screens\<close>

text \<open>
  The development embeds the functions of \<^verbatim>\<open>src/App.tsx\<close> (\<^verbatim>\<open>rpc\<close>, \<^verbatim>\<open>getBalance\<close>,
  \<^verbatim>\<open>getTokens\<close>, \<^verbatim>\<open>getTxns\<close>, \<^verbatim>\<open>timeAgo\<close>, \<^verbatim>\<open>search\<close>) and of
  \<^verbatim>\<open>src/app/token/[mint].tsx\<close> (\<^verbatim>\<open>fetchTokenData\<close>, \<^verbatim>\<open>formatPrice\<close>).

  Conventions.
  \<^item> A JavaScript number that comes out of \<^verbatim>\<open>JSON.parse\<close> is a finite double; it is
    modelled by the real number it denotes. Comparisons of finite doubles agree with the
    comparisons of these reals.
  \<^item> A string is a list of characters; \<^verbatim>\<open>!s\<close> on a string holds exactly for the empty one.
  \<^item> A thrown exception (a rejected promise) is the \<open>Inl\<close> branch of a sum.
  \<^item> What the network answers is not decided by the program: it is an argument of the
    model (the record \<open>env\<close> for the wallet screen, a \<open>fetch_result\<close> for the token screen).
\<close>

subsection \<open>JavaScript values, truthiness, exceptions\<close>

datatype jsval =
    JUndefined
  | JNull
  | JBool bool
  | JNum real
  | JStr string
  | JArr "jsval list"
  | JObj "(string \<times> jsval) list"

text \<open>\<^verbatim>\<open>if (v)\<close> and \<^verbatim>\<open>!v\<close>: the falsy values are \<^verbatim>\<open>undefined\<close>, \<^verbatim>\<open>null\<close>, \<^verbatim>\<open>false\<close>,
  \<^verbatim>\<open>0\<close> and the empty string (\<^verbatim>\<open>NaN\<close> is no JSON value).\<close>

fun truthy :: "jsval \<Rightarrow> bool" where
  "truthy JUndefined = False"
| "truthy JNull = False"
| "truthy (JBool b) = b"
| "truthy (JNum r) = (r \<noteq> 0)"
| "truthy (JStr s) = (s \<noteq> [])"
| "truthy (JArr xs) = True"
| "truthy (JObj kvs) = True"

datatype exn =
    Error string
  | TypeError string
  | SyntaxError string

fun message :: "exn \<Rightarrow> string" where
  "message (Error m) = m"
| "message (TypeError m) = m"
| "message (SyntaxError m) = m"

text \<open>\<^verbatim>\<open>v.k\<close> for one of the keys the program reads (\<^verbatim>\<open>message\<close>): reading a property of
  \<^verbatim>\<open>undefined\<close> or \<^verbatim>\<open>null\<close> throws, an object yields the stored value or \<^verbatim>\<open>undefined\<close>,
  and no other value has such a property.\<close>

fun getProp :: "jsval \<Rightarrow> string \<Rightarrow> exn + jsval" where
  "getProp JUndefined k = Inl (TypeError (''Cannot read property '' @ k @ '' of undefined''))"
| "getProp JNull k = Inl (TypeError (''Cannot read property '' @ k @ '' of null''))"
| "getProp (JObj kvs) k = Inr (case map_of kvs k of None \<Rightarrow> JUndefined | Some v \<Rightarrow> v)"
| "getProp v k = Inr JUndefined"

text \<open>\<^verbatim>\<open>new Error(v)\<close>: the message is the empty string when \<open>v\<close> is \<^verbatim>\<open>undefined\<close>, the
  string itself when \<open>v\<close> is a string, and otherwise the runtime's \<^verbatim>\<open>ToString(v)\<close>, which is
  the argument \<open>toStr\<close>.\<close>

definition Error_new :: "(jsval \<Rightarrow> string) \<Rightarrow> jsval \<Rightarrow> exn" where
  "Error_new toStr v =
     Error (case v of JUndefined \<Rightarrow> [] | JStr s \<Rightarrow> s | _ \<Rightarrow> toStr v)"

subsection \<open>Decimal rendering of integers\<close>

text \<open>A template literal \<^verbatim>\<open>`${n}`\<close> of an integral number below \<open>10^21\<close> in absolute value
  prints its decimal digits, with a leading minus sign when it is negative.\<close>

fun showNat :: "nat \<Rightarrow> string" where
  "showNat n =
     (if n < 10 then [''0123456789'' ! n]
      else showNat (n div 10) @ [''0123456789'' ! (n mod 10)])"

declare showNat.simps [simp del]


subsection \<open>\<^verbatim>\<open>rpc\<close>\<close>

text \<open>The parsed body of a JSON-RPC answer: the value of its \<^verbatim>\<open>error\<close> member
  (\<open>JUndefined\<close> when the body has none) and its \<^verbatim>\<open>result\<close> member (\<open>None\<close> when the body has
  none or it is \<^verbatim>\<open>null\<close>), at the type \<open>'r\<close> the called method answers with.\<close>

record 'r rpc_body =
  error :: jsval
  result :: "'r option"

text \<open>What \<^verbatim>\<open>fetch\<close> followed by \<^verbatim>\<open>res.json()\<close> gives: \<^verbatim>\<open>fetch\<close> rejects, the body is not JSON,
  the body is the JSON literal \<^verbatim>\<open>null\<close>, or it is parsed. \<^verbatim>\<open>rpc\<close> never looks at the HTTP
  status.\<close>

datatype 'r fetch_outcome =
    NetworkFailure string
  | BodyNotJson string
  | ParsedNull
  | Parsed "'r rpc_body"

fun rpc :: "(jsval \<Rightarrow> string) \<Rightarrow> 'r fetch_outcome \<Rightarrow> exn + 'r option" where
  "rpc toStr (NetworkFailure m) = Inl (TypeError m)"
| "rpc toStr (BodyNotJson m) = Inl (SyntaxError m)"
| "rpc toStr ParsedNull = Inl (TypeError ''Cannot read property error of null'')"
| "rpc toStr (Parsed json) =
     (if truthy (error json)
      then (case getProp (error json) ''message'' of
              Inl e \<Rightarrow> Inl e
            | Inr m \<Rightarrow> Inl (Error_new toStr m))
      else Inr (result json))"

subsection \<open>\<^verbatim>\<open>getBalance\<close>, \<^verbatim>\<open>getTokens\<close>, \<^verbatim>\<open>getTxns\<close>\<close>

record 'v rpc_value =
  "value" :: 'v

text \<open>An entry of \<^verbatim>\<open>getTokenAccountsByOwner\<close> with \<^verbatim>\<open>jsonParsed\<close> encoding; a field is named
  by the path the program reads: \<^verbatim>\<open>a.account.data.parsed.info.mint\<close> and
  \<^verbatim>\<open>a.account.data.parsed.info.tokenAmount.uiAmount\<close> (a number or \<^verbatim>\<open>null\<close>).\<close>

record token_account =
  account_data_parsed_info_mint :: string
  account_data_parsed_info_tokenAmount_uiAmount :: "real option"

record holding =
  mint :: string
  amount :: "real option"

text \<open>An entry of \<^verbatim>\<open>getSignaturesForAddress\<close>.\<close>

record sig_entry =
  signature :: string
  blockTime :: "int option"
  err :: jsval

record txn =
  sig :: string
  time :: "int option"
  ok :: bool

text \<open>The environment of the wallet screen: the runtime's \<^verbatim>\<open>ToString\<close>, the answer of the
  network to each of the three requests for an address, and the order in which the three
  promises settle (indices 0, 1, 2 in the order they are passed to \<^verbatim>\<open>Promise.all\<close>).\<close>

record env =
  ToString :: "jsval \<Rightarrow> string"
  fetch_getBalance :: "string \<Rightarrow> (real rpc_value) fetch_outcome"
  fetch_getTokenAccountsByOwner :: "string \<Rightarrow> ((token_account list option) rpc_value) fetch_outcome"
  fetch_getSignaturesForAddress :: "string \<Rightarrow> (sig_entry list) fetch_outcome"
  settle_order :: "nat list"

definition getBalance :: "env \<Rightarrow> string \<Rightarrow> exn + real" where
  "getBalance e addr =
     (case rpc (ToString e) (fetch_getBalance e addr) of
        Inl x \<Rightarrow> Inl x
      | Inr None \<Rightarrow> Inl (TypeError ''Cannot read property value of undefined'')
      | Inr (Some res) \<Rightarrow> Inr (value res / 1000000000))"

text \<open>\<^verbatim>\<open>t.amount > 0\<close> on a number or \<^verbatim>\<open>null\<close>: \<^verbatim>\<open>null\<close> converts to 0.\<close>

definition gt0 :: "real option \<Rightarrow> bool" where
  "gt0 a = (case a of None \<Rightarrow> False | Some x \<Rightarrow> x > 0)"

definition getTokens :: "env \<Rightarrow> string \<Rightarrow> exn + holding list" where
  "getTokens e addr =
     (case rpc (ToString e) (fetch_getTokenAccountsByOwner e addr) of
        Inl x \<Rightarrow> Inl x
      | Inr None \<Rightarrow> Inl (TypeError ''Cannot read property value of undefined'')
      | Inr (Some res) \<Rightarrow>
          Inr (filter (\<lambda>t. gt0 (amount t))
                (map (\<lambda>a. \<lparr> mint = account_data_parsed_info_mint a,
                            amount = account_data_parsed_info_tokenAmount_uiAmount a \<rparr>)
                     (case value res of None \<Rightarrow> [] | Some as \<Rightarrow> as))))"

definition getTxns :: "env \<Rightarrow> string \<Rightarrow> exn + txn list" where
  "getTxns e addr =
     (case rpc (ToString e) (fetch_getSignaturesForAddress e addr) of
        Inl x \<Rightarrow> Inl x
      | Inr None \<Rightarrow> Inl (TypeError ''Cannot read property map of undefined'')
      | Inr (Some sigs) \<Rightarrow>
          Inr (map (\<lambda>s. \<lparr> sig = signature s, time = blockTime s, ok = (\<not> truthy (err s)) \<rparr>) sigs))"

subsection \<open>\<^verbatim>\<open>timeAgo\<close>\<close>


subsection \<open>The wallet screen: \<^verbatim>\<open>search\<close>\<close>

text \<open>\<^verbatim>\<open>String.prototype.trim\<close> removes white space from both ends. Characters are the code
  units up to \<open>0xFF\<close>; among them the white space and line terminators of ECMAScript are
  tab, line feed, vertical tab, form feed, carriage return, space and no-break space.\<close>

definition isWhiteSpace :: "char \<Rightarrow> bool" where
  "isWhiteSpace c =
     (c \<in> {CHR 0x09, CHR 0x0A, CHR 0x0B, CHR 0x0C, CHR 0x0D, CHR 0x20, CHR 0xA0})"

definition trim :: "string \<Rightarrow> string" where
  "trim s = rev (dropWhile isWhiteSpace (rev (dropWhile isWhiteSpace s)))"

text \<open>\<^verbatim>\<open>Promise.all([a, b, c])\<close>: fulfilled with the three values when all three promises are
  fulfilled, and otherwise rejected with the reason of the rejected promise that settles
  first. \<open>order\<close> lists the indices of the promises in the order they settle; an index it
  does not list settles after the listed ones, in argument order.\<close>

definition rejection :: "exn + 'a \<Rightarrow> exn option" where
  "rejection p = (case p of Inl e \<Rightarrow> Some e | Inr v \<Rightarrow> None)"

fun firstRejected :: "nat list \<Rightarrow> exn option list \<Rightarrow> exn option" where
  "firstRejected [] rs = None"
| "firstRejected (i # js) rs =
     (if i < length rs
      then (case rs ! i of Some e \<Rightarrow> Some e | None \<Rightarrow> firstRejected js rs)
      else firstRejected js rs)"

definition Promise_all3 ::
  "nat list \<Rightarrow> exn + 'a \<Rightarrow> exn + 'b \<Rightarrow> exn + 'c \<Rightarrow> exn + ('a \<times> 'b \<times> 'c)" where
  "Promise_all3 order a b c =
     (case firstRejected (order @ [0, 1, 2]) [rejection a, rejection b, rejection c] of
        Some e \<Rightarrow> Inl e
      | None \<Rightarrow>
          (case a of
             Inl e \<Rightarrow> Inl e
           | Inr x \<Rightarrow>
               (case b of
                  Inl e \<Rightarrow> Inl e
                | Inr y \<Rightarrow> (case c of Inl e \<Rightarrow> Inl e | Inr z \<Rightarrow> Inr (x, y, z)))))"

record request =
  rpc_method :: string
  rpc_params :: "jsval list"

text \<open>The state of the component: the five \<^verbatim>\<open>useState\<close> cells, and two logs of what the
  component did to the outside: the alerts shown (title and message) and the JSON-RPC
  requests sent.\<close>

record App_state =
  address :: string
  loading :: bool
  balance :: "real option"
  tokens :: "holding list"
  txns :: "txn list"
  alerts :: "(string \<times> string option) list"
  requests :: "request list"

definition wallet_requests :: "string \<Rightarrow> request list" where
  "wallet_requests addr =
     [\<lparr> rpc_method = ''getBalance'', rpc_params = [JStr addr] \<rparr>,
      \<lparr> rpc_method = ''getTokenAccountsByOwner'',
        rpc_params = [JStr addr,
                      JObj [(''programId'', JStr ''TokenkegQfeZyiNwAJbNbGKPFXCWuBvf9Ss623VQ5DA'')],
                      JObj [(''encoding'', JStr ''jsonParsed'')]] \<rparr>,
      \<lparr> rpc_method = ''getSignaturesForAddress'',
        rpc_params = [JStr addr, JObj [(''limit'', JNum 10)]] \<rparr>]"

text \<open>The joined promise of \<^verbatim>\<open>search\<close>: each of the three calls sends its request before it
  first suspends, so all three requests are out before any answer is looked at.\<close>

definition fetchWallet :: "env \<Rightarrow> string \<Rightarrow> exn + (real \<times> holding list \<times> txn list)" where
  "fetchWallet e addr =
     Promise_all3 (settle_order e) (getBalance e addr) (getTokens e addr) (getTxns e addr)"

definition search :: "env \<Rightarrow> App_state \<Rightarrow> App_state" where
  "search e st =
     (let addr = trim (address st) in
      if addr = [] then st\<lparr> alerts := alerts st @ [(''Enter a wallet address'', None)] \<rparr>
      else
        let st1 = st\<lparr> loading := True, requests := requests st @ wallet_requests addr \<rparr>;
            st2 = (case fetchWallet e addr of
                     Inr (bal, tok, tx) \<Rightarrow> st1\<lparr> balance := Some bal, tokens := tok, txns := tx \<rparr>
                   | Inl x \<Rightarrow> st1\<lparr> alerts := alerts st1 @ [(''Error'', Some (message x))] \<rparr>)
        in st2\<lparr> loading := False \<rparr>)"

subsection \<open>The token screen: \<^verbatim>\<open>fetchTokenData\<close>\<close>

text \<open>The interface \<^verbatim>\<open>TokenPair\<close>. The members the program reads through \<^verbatim>\<open>?.\<close> may be
  missing and are options; the nested objects that are only displayed are flattened, a
  field named by its path.\<close>

record Liquidity =
  usd :: "real option"

record TokenPair =
  chainId :: string
  dexId :: string
  pairAddress :: string
  baseToken_address :: string
  baseToken_name :: string
  baseToken_symbol :: string
  priceUsd :: string
  priceChange_h24 :: real
  volume_h24 :: real
  liquidity :: "Liquidity option"
  fdv :: real
  marketCap :: real
  info_imageUrl :: "string option"

record DexScreenerResponse =
  pairs :: "TokenPair list option"

text \<open>What \<^verbatim>\<open>res.json()\<close> gives on the token screen, and what \<^verbatim>\<open>fetch\<close> gives.\<close>

datatype json_result =
    NotJson string
  | JsonNull
  | Json DexScreenerResponse

record Response =
  res_ok :: bool
  res_status :: nat
  res_json :: json_result

datatype fetch_result =
    Rejected string
  | Resolved Response

text \<open>\<^verbatim>\<open>p.liquidity?.usd || 0\<close>.\<close>

definition liquidity_usd_or_0 :: "TokenPair \<Rightarrow> real" where
  "liquidity_usd_or_0 p =
     (case liquidity p of
        None \<Rightarrow> 0
      | Some l \<Rightarrow> (case usd l of None \<Rightarrow> 0 | Some u \<Rightarrow> u))"

text \<open>The callback of \<^verbatim>\<open>reduce\<close>.\<close>

definition keepBest :: "TokenPair \<Rightarrow> TokenPair \<Rightarrow> TokenPair" where
  "keepBest best current =
     (let bestLiq = liquidity_usd_or_0 best;
          currentLiq = liquidity_usd_or_0 current
      in if currentLiq > bestLiq then current else best)"

text \<open>The body of the \<^verbatim>\<open>try\<close> block: the pair it passes to \<^verbatim>\<open>setTokenData\<close>, or the
  exception it throws. \<^verbatim>\<open>reduce\<close> with the initial value \<^verbatim>\<open>data.pairs[0]\<close> visits every
  element of the array, the first one included.\<close>

definition fetchTokenMarket :: "fetch_result \<Rightarrow> exn + TokenPair" where
  "fetchTokenMarket r =
     (case r of
        Rejected m \<Rightarrow> Inl (TypeError m)
      | Resolved res \<Rightarrow>
          if \<not> res_ok res then Inl (Error (''Failed to fetch: '' @ showNat (res_status res)))
          else
            (case res_json res of
               NotJson m \<Rightarrow> Inl (SyntaxError m)
             | JsonNull \<Rightarrow> Inl (TypeError ''Cannot read property pairs of null'')
             | Json data \<Rightarrow>
                 (case pairs data of
                    None \<Rightarrow> Inl (Error ''Token not found on DexScreener'')
                  | Some [] \<Rightarrow> Inl (Error ''Token not found on DexScreener'')
                  | Some (p # ps) \<Rightarrow> Inr (foldl keepBest p (p # ps)))))"

record Token_state =
  tokenData :: "TokenPair option"
  token_loading :: bool
  token_error :: "string option"

text \<open>\<open>net\<close> is the answer of the network to the request for a mint.\<close>

definition fetchTokenData :: "(string \<Rightarrow> fetch_result) \<Rightarrow> string \<Rightarrow> Token_state \<Rightarrow> Token_state" where
  "fetchTokenData net m st =
     (if m = [] then st
      else
        let st1 = st\<lparr> token_loading := True, token_error := None \<rparr>;
            st2 = (case fetchTokenMarket (net m) of
                     Inr bestPair \<Rightarrow> st1\<lparr> tokenData := Some bestPair \<rparr>
                   | Inl e \<Rightarrow>
                       st1\<lparr> token_error :=
                              Some (if message e = [] then ''Failed to load token'' else message e) \<rparr>)
        in st2\<lparr> token_loading := False \<rparr>)"

text \<open>The selection as the specification words it: the first element is the running
  best, and the elements after it are scanned from left to right, one replacing the
  running best only when its liquidity is strictly greater.\<close>

fun scan_best :: "TokenPair \<Rightarrow> TokenPair list \<Rightarrow> TokenPair" where
  "scan_best best [] = best"
| "scan_best best (c # cs) =
     scan_best (if liquidity_usd_or_0 c > liquidity_usd_or_0 best then c else best) cs"

subsection \<open>\<^verbatim>\<open>formatPrice\<close>\<close>



subsection \<open>A reference runtime\<close>
















subsection \<open>Sample data\<close>

text \<open>A pair with a given address and liquidity member; the other members are fixed.\<close>

definition sample_pair :: "string \<Rightarrow> Liquidity option \<Rightarrow> TokenPair" where
  "sample_pair a l =
     \<lparr> chainId = ''solana'', dexId = ''raydium'', pairAddress = a,
       baseToken_address = ''So11111111111111111111111111111111111111112'',
       baseToken_name = ''Wrapped SOL'', baseToken_symbol = ''SOL'',
       priceUsd = ''142.5'', priceChange_h24 = 1, volume_h24 = 1000,
       liquidity = l, fdv = 0, marketCap = 0, info_imageUrl = None \<rparr>"

definition ok_response :: "TokenPair list option \<Rightarrow> fetch_result" where
  "ok_response ps =
     Resolved \<lparr> res_ok = True, res_status = 200, res_json = Json \<lparr> pairs = ps \<rparr> \<rparr>"

text \<open>A stand-in for the runtime's \<^verbatim>\<open>ToString\<close> on values that are neither strings nor
  numbers.\<close>

fun sample_ToString :: "jsval \<Rightarrow> string" where
  "sample_ToString JNull = ''null''"
| "sample_ToString (JBool b) = (if b then ''true'' else ''false'')"
| "sample_ToString (JObj kvs) = ''[object Object]''"
| "sample_ToString v = []"

definition sample_account :: "string \<Rightarrow> real option \<Rightarrow> token_account" where
  "sample_account m a =
     \<lparr> account_data_parsed_info_mint = m, account_data_parsed_info_tokenAmount_uiAmount = a \<rparr>"

text \<open>A network on which the three requests succeed: 2.5 SOL, four token accounts (one
  with a zero amount, one with a \<^verbatim>\<open>null\<close> amount), two signatures (one failed).\<close>

definition sample_env :: env where
  "sample_env =
     \<lparr> ToString = sample_ToString,
       fetch_getBalance =
         (\<lambda>a. Parsed \<lparr> error = JUndefined, result = Some \<lparr> value = 2500000000 \<rparr> \<rparr>),
       fetch_getTokenAccountsByOwner =
         (\<lambda>a. Parsed \<lparr> error = JUndefined,
                       result = Some \<lparr> value = Some
                         [sample_account ''MintA'' (Some 12),
                          sample_account ''MintB'' (Some 0),
                          sample_account ''MintC'' None,
                          sample_account ''MintD'' (Some 3)] \<rparr> \<rparr>),
       fetch_getSignaturesForAddress =
         (\<lambda>a. Parsed \<lparr> error = JUndefined,
                       result = Some
                         [\<lparr> signature = ''sig1'', blockTime = Some 1700000000, err = JNull \<rparr>,
                          \<lparr> signature = ''sig2'', blockTime = None,
                            err = JObj [(''InstructionError'', JArr [JNum 0, JStr ''Custom''])] \<rparr>] \<rparr>),
       settle_order = [2, 0, 1] \<rparr>"

text \<open>The same network, except that the node answers the token request with a JSON-RPC
  error.\<close>

definition failing_env :: env where
  "failing_env =
     sample_env\<lparr> fetch_getTokenAccountsByOwner :=
       (\<lambda>a. Parsed \<lparr> error = JObj [(''code'', JNum (- 32602)),
                                     (''message'', JStr ''Invalid param: WrongSize'')],
                     result = None \<rparr>) \<rparr>"

definition sample_state :: "string \<Rightarrow> App_state" where
  "sample_state a =
     \<lparr> address = a, loading = False, balance = Some 1, tokens = [], txns = [],
       alerts = [], requests = [] \<rparr>"

section \<open>Verified properties\<close>

subsection \<open>Auxiliary facts: the scan over the pairs\<close>

lemma keepBest_self: "keepBest p p = p"
  by (simp add: keepBest_def)

lemma foldl_keepBest_scan: "foldl keepBest best cs = scan_best best cs"
  by (induction cs arbitrary: best) (simp_all add: keepBest_def)

lemma reduce_is_scan: "foldl keepBest p (p # ps) = scan_best p ps"
  by (simp add: keepBest_self foldl_keepBest_scan)

lemma scan_best_ge_init: "liquidity_usd_or_0 best \<le> liquidity_usd_or_0 (scan_best best cs)"
proof (induction cs arbitrary: best)
  case Nil
  show ?case by simp
next
  case (Cons c cs)
  show ?case
  proof (cases "liquidity_usd_or_0 c > liquidity_usd_or_0 best")
    case True
    have "liquidity_usd_or_0 c \<le> liquidity_usd_or_0 (scan_best c cs)" by (rule Cons.IH)
    with True show ?thesis by simp
  next
    case False
    then show ?thesis using Cons.IH [of best] by simp
  qed
qed

lemma scan_best_split:
  "\<exists>ys zs. best # cs = ys @ scan_best best cs # zs
     \<and> (\<forall>y \<in> set ys. liquidity_usd_or_0 y < liquidity_usd_or_0 (scan_best best cs))
     \<and> (\<forall>z \<in> set zs. liquidity_usd_or_0 z \<le> liquidity_usd_or_0 (scan_best best cs))"
proof (induction cs arbitrary: best)
  case Nil
  have "[best] = [] @ scan_best best [] # []" by simp
  then show ?case by fastforce
next
  case (Cons c cs)
  show ?case
  proof (cases "liquidity_usd_or_0 c > liquidity_usd_or_0 best")
    case True
    define s where "s = scan_best c cs"
    have sel: "scan_best best (c # cs) = s" using True by (simp add: s_def)
    from Cons.IH [of c] obtain ys zs where
      split: "c # cs = ys @ s # zs"
      and before: "\<forall>y \<in> set ys. liquidity_usd_or_0 y < liquidity_usd_or_0 s"
      and after: "\<forall>z \<in> set zs. liquidity_usd_or_0 z \<le> liquidity_usd_or_0 s"
      unfolding s_def by blast
    have "liquidity_usd_or_0 best < liquidity_usd_or_0 s"
      using True scan_best_ge_init [of c cs] by (simp add: s_def)
    with before have "\<forall>y \<in> set (best # ys). liquidity_usd_or_0 y < liquidity_usd_or_0 s"
      by simp
    moreover have "best # c # cs = (best # ys) @ s # zs"
      using split by simp
    ultimately show ?thesis unfolding sel using after by blast
  next
    case False
    define s where "s = scan_best best cs"
    have sel: "scan_best best (c # cs) = s" using False by (simp add: s_def)
    from Cons.IH [of best] obtain ys zs where
      split: "best # cs = ys @ s # zs"
      and before: "\<forall>y \<in> set ys. liquidity_usd_or_0 y < liquidity_usd_or_0 s"
      and after: "\<forall>z \<in> set zs. liquidity_usd_or_0 z \<le> liquidity_usd_or_0 s"
      unfolding s_def by blast
    show ?thesis
    proof (cases ys)
      case Nil
      with split have s: "s = best" and zs: "zs = cs" by simp_all
      have "\<forall>z \<in> set (c # cs). liquidity_usd_or_0 z \<le> liquidity_usd_or_0 s"
        using after False s zs by simp
      moreover have "best # c # cs = [] @ s # (c # cs)" using s by simp
      moreover have "\<forall>y \<in> set []. liquidity_usd_or_0 y < liquidity_usd_or_0 s" by simp
      ultimately show ?thesis unfolding sel by blast
    next
      case (Cons y ys')
      with split have y: "y = best" and rest: "cs = ys' @ s # zs" by simp_all
      from before Cons y have "liquidity_usd_or_0 best < liquidity_usd_or_0 s" by simp
      with False have "liquidity_usd_or_0 c < liquidity_usd_or_0 s" by simp
      with before Cons y have
        "\<forall>y \<in> set (best # c # ys'). liquidity_usd_or_0 y < liquidity_usd_or_0 s"
        by simp
      moreover have "best # c # cs = (best # c # ys') @ s # zs" using rest by simp
      ultimately show ?thesis unfolding sel using after by blast
    qed
  qed
qed

lemma scan_best_index:
  "\<exists>i < length (p # ps). scan_best p ps = (p # ps) ! i
     \<and> (\<forall>j < length (p # ps). liquidity_usd_or_0 ((p # ps) ! j) \<le> liquidity_usd_or_0 ((p # ps) ! i))
     \<and> (\<forall>j < i. liquidity_usd_or_0 ((p # ps) ! j) < liquidity_usd_or_0 ((p # ps) ! i))"
proof -
  from scan_best_split [of p ps] obtain ys zs where
    split: "p # ps = ys @ scan_best p ps # zs"
    and before: "\<forall>y \<in> set ys. liquidity_usd_or_0 y < liquidity_usd_or_0 (scan_best p ps)"
    and after: "\<forall>z \<in> set zs. liquidity_usd_or_0 z \<le> liquidity_usd_or_0 (scan_best p ps)"
    by blast
  let ?i = "length ys"
  have len: "?i < length (p # ps)" by (subst split) simp
  have at: "(p # ps) ! ?i = scan_best p ps" by (subst split) simp
  have lt: "liquidity_usd_or_0 ((p # ps) ! j) < liquidity_usd_or_0 (scan_best p ps)" if "j < ?i" for j
  proof -
    have "(p # ps) ! j = ys ! j" using that by (subst split) (simp add: nth_append)
    moreover have "ys ! j \<in> set ys" using that by simp
    ultimately show ?thesis using before by simp
  qed
  have le: "liquidity_usd_or_0 ((p # ps) ! j) \<le> liquidity_usd_or_0 (scan_best p ps)"
    if "j < length (p # ps)" for j
  proof -
    have "(p # ps) ! j \<in> set (p # ps)" using that by (rule nth_mem)
    then have "(p # ps) ! j \<in> set ys \<union> {scan_best p ps} \<union> set zs"
      by (subst (asm) split) auto
    then show ?thesis using before after by fastforce
  qed
  from len at lt le show ?thesis by (metis)
qed

subsection \<open>Auxiliary facts: elapsed seconds\<close>








subsection \<open>Auxiliary facts: joined promises, \<^verbatim>\<open>search\<close>, \<^verbatim>\<open>trim\<close>\<close>

lemma firstRejected_mem: "firstRejected js rs = Some x \<Longrightarrow> Some x \<in> set rs"
proof (induction js)
  case Nil
  then show ?case by simp
next
  case (Cons i js)
  then show ?case
    by (cases "i < length rs"; cases "rs ! i") (auto dest: nth_mem [of i rs])
qed

lemma Promise_all3_rejected:
  assumes "isl a \<or> isl b \<or> isl c"
  shows "\<exists>x. Promise_all3 order a b c = Inl x \<and> (a = Inl x \<or> b = Inl x \<or> c = Inl x)"
proof (cases "firstRejected (order @ [0, 1, 2]) [rejection a, rejection b, rejection c]")
  case None
  with assms show ?thesis
    by (cases a; cases b; cases c) (simp_all add: Promise_all3_def)
next
  case (Some x)
  then have "Some x \<in> set [rejection a, rejection b, rejection c]"
    by (rule firstRejected_mem)
  then have "a = Inl x \<or> b = Inl x \<or> c = Inl x"
    by (auto simp: rejection_def split: sum.splits)
  moreover have "Promise_all3 order a b c = Inl x"
    using Some by (simp add: Promise_all3_def)
  ultimately show ?thesis by blast
qed

lemma firstRejected_none: "\<forall>r \<in> set rs. r = None \<Longrightarrow> firstRejected js rs = None"
  by (induction js) (auto simp: all_set_conv_all_nth)

lemma Promise_all3_fulfilled: "Promise_all3 order (Inr x) (Inr y) (Inr z) = Inr (x, y, z)"
  by (simp add: Promise_all3_def rejection_def firstRejected_none)

lemma search_nonempty:
  "trim (address st) \<noteq> [] \<Longrightarrow>
   search e st =
     (case fetchWallet e (trim (address st)) of
        Inr (bal, tok, tx) \<Rightarrow>
          st\<lparr> loading := False, requests := requests st @ wallet_requests (trim (address st)),
               balance := Some bal, tokens := tok, txns := tx \<rparr>
      | Inl x \<Rightarrow>
          st\<lparr> loading := False, requests := requests st @ wallet_requests (trim (address st)),
               alerts := alerts st @ [(''Error'', Some (message x))] \<rparr>)"
  by (simp add: search_def Let_def split: sum.splits prod.splits)

lemma search_sends_three_requests:
  "trim (address st) \<noteq> [] \<Longrightarrow>
   requests (search e st) = requests st @ wallet_requests (trim (address st))
   \<and> length (wallet_requests (trim (address st))) = 3"
  by (simp add: search_nonempty wallet_requests_def split: sum.splits prod.splits)

lemma dropWhile_all_iff: "(\<forall>x \<in> set (dropWhile P xs). P x) = (\<forall>x \<in> set xs. P x)"
proof (cases "dropWhile P xs = []")
  case True
  then have "\<forall>x \<in> set xs. P x" by simp
  then show ?thesis unfolding True by simp
next
  case False
  then have "\<not> P (hd (dropWhile P xs))" by (rule hd_dropWhile)
  moreover have "hd (dropWhile P xs) \<in> set (dropWhile P xs)" using False by simp
  moreover have "set (dropWhile P xs) \<subseteq> set xs" by (rule set_dropWhileD [THEN subsetI])
  ultimately show ?thesis by blast
qed

lemma trim_empty_iff: "(trim s = []) = (\<forall>c \<in> set s. isWhiteSpace c)"
  by (simp add: trim_def dropWhile_all_iff)

lemma sample_trim: "trim ''  abc '' = ''abc''"
  by (simp add: trim_def isWhiteSpace_def)

lemma failing_tokens: "getTokens failing_env ''abc'' = Inl (Error ''Invalid param: WrongSize'')"
  by (simp add: getTokens_def failing_env_def sample_env_def Error_new_def)

lemma failing_others:
  "getBalance failing_env ''abc'' = Inr (5 / 2)" "\<not> isl (getTxns failing_env ''abc'')"
  by (simp_all add: getBalance_def getTxns_def failing_env_def sample_env_def)

subsection \<open>Auxiliary facts: truthiness\<close>

lemma truthy_getProp: "truthy v \<Longrightarrow> \<exists>m. getProp v k = Inr m"
  by (cases v) simp_all

lemma falsy_iff:
  "(\<not> truthy v) = (v = JUndefined \<or> v = JNull \<or> v = JBool False \<or> v = JNum 0 \<or> v = JStr [])"
  by (cases v) auto

lemma gt0_iff: "gt0 u = (\<exists>v. u = Some v \<and> 0 < v)"
  by (cases u) (simp_all add: gt0_def)

subsection \<open>Auxiliary facts: the reference runtime on the samples\<close>















lemma scan_best_mem: "scan_best p ps \<in> set (p # ps)"
  using scan_best_split [of p ps] by (metis in_set_conv_decomp)

subsection \<open>The pair the token screen selects\<close>

text \<open>
  Claim C1. For every non-empty list of pairs that the market API answers with, the pair
  that \<^verbatim>\<open>fetchTokenData\<close> selects is the result of the \<^verbatim>\<open>reduce\<close> over the list, and that
  is the scan in which the first element is the initial best and a later element replaces
  the running best only when its liquidity in USD is strictly greater, a missing
  \<^verbatim>\<open>liquidity\<close> or \<^verbatim>\<open>usd\<close> member counting as 0. The selected pair stands at an index \<open>i\<close> of
  the list, no element of the list has a greater liquidity, and every element before \<open>i\<close>
  has a strictly smaller one: among the pairs of maximal liquidity the earliest is
  selected.
\<close>

theorem best_pair_first_maximal:
  "fetchTokenMarket
      (Resolved \<lparr> res_ok = True, res_status = code,
                  res_json = Json \<lparr> pairs = Some (p # ps) \<rparr> \<rparr>)
     = Inr (foldl keepBest p (p # ps))
   \<and> foldl keepBest p (p # ps) = scan_best p ps
   \<and> (liquidity q = None \<or> liquidity q = Some \<lparr> usd = None \<rparr> \<longrightarrow> liquidity_usd_or_0 q = 0)
   \<and> (\<exists>i < length (p # ps).
         scan_best p ps = (p # ps) ! i
       \<and> (\<forall>j < length (p # ps).
             liquidity_usd_or_0 ((p # ps) ! j) \<le> liquidity_usd_or_0 ((p # ps) ! i))
       \<and> (\<forall>j < i. liquidity_usd_or_0 ((p # ps) ! j) < liquidity_usd_or_0 ((p # ps) ! i)))"
proof -
  have "fetchTokenMarket
      (Resolved \<lparr> res_ok = True, res_status = code,
                  res_json = Json \<lparr> pairs = Some (p # ps) \<rparr> \<rparr>)
     = Inr (foldl keepBest p (p # ps))"
    by (simp add: fetchTokenMarket_def)
  moreover have "liquidity q = None \<or> liquidity q = Some \<lparr> usd = None \<rparr> \<longrightarrow> liquidity_usd_or_0 q = 0"
    by (auto simp: liquidity_usd_or_0_def)
  ultimately show ?thesis
    using reduce_is_scan [of p ps] scan_best_index [of p ps] by blast
qed

theorem best_pair_first_maximal_witness:
  "fetchTokenMarket
      (Resolved \<lparr> res_ok = True, res_status = 200,
                  res_json = Json \<lparr> pairs = Some
                    [sample_pair ''A'' (Some \<lparr> usd = Some 5 \<rparr>),
                     sample_pair ''B'' (Some \<lparr> usd = Some 9 \<rparr>),
                     sample_pair ''C'' (Some \<lparr> usd = Some 9 \<rparr>),
                     sample_pair ''D'' None] \<rparr> \<rparr>)
     = Inr (sample_pair ''B'' (Some \<lparr> usd = Some 9 \<rparr>))
   \<and> liquidity_usd_or_0 (sample_pair ''D'' None) = 0"
  using best_pair_first_maximal [of 200 "sample_pair ''A'' (Some \<lparr> usd = Some 5 \<rparr>)"
      "[sample_pair ''B'' (Some \<lparr> usd = Some 9 \<rparr>), sample_pair ''C'' (Some \<lparr> usd = Some 9 \<rparr>),
        sample_pair ''D'' None]" "sample_pair ''D'' None"]
  by (simp add: sample_pair_def liquidity_usd_or_0_def)

text \<open>
  Claim C3. The body of \<^verbatim>\<open>fetchTokenData\<close> throws \<^verbatim>\<open>Token not found on DexScreener\<close> exactly
  when the response has a success status, its body is a JSON object and the member
  \<^verbatim>\<open>pairs\<close> is missing, \<^verbatim>\<open>null\<close> or the empty array. For a non-empty array it returns a
  member of the array, unchanged, also when the only pair has no liquidity member. A
  response with a non-success status makes it throw \<^verbatim>\<open>Failed to fetch:\<close> followed by the
  status instead.
\<close>

theorem token_not_found_iff:
  "(fetchTokenMarket r = Inl (Error ''Token not found on DexScreener''))
     = (\<exists>res data. r = Resolved res \<and> res_ok res \<and> res_json res = Json data
          \<and> (pairs data = None \<or> pairs data = Some []))
   \<and> (r = Resolved res \<and> res_ok res \<and> res_json res = Json data \<and> pairs data = Some (p # ps)
        \<longrightarrow> (\<exists>q \<in> set (p # ps). fetchTokenMarket r = Inr q))
   \<and> fetchTokenMarket (ok_response (Some [p])) = Inr p
   \<and> (r = Resolved res \<and> \<not> res_ok res
        \<longrightarrow> fetchTokenMarket r = Inl (Error (''Failed to fetch: '' @ showNat (res_status res))))"
proof -
  have iff: "(fetchTokenMarket r = Inl (Error ''Token not found on DexScreener''))
     = (\<exists>res data. r = Resolved res \<and> res_ok res \<and> res_json res = Json data
          \<and> (pairs data = None \<or> pairs data = Some []))"
    by (auto simp: fetchTokenMarket_def
        split: fetch_result.splits json_result.splits option.splits list.splits)
  have mem: "r = Resolved res \<and> res_ok res \<and> res_json res = Json data \<and> pairs data = Some (p # ps)
        \<longrightarrow> (\<exists>q \<in> set (p # ps). fetchTokenMarket r = Inr q)"
  proof
    assume a: "r = Resolved res \<and> res_ok res \<and> res_json res = Json data \<and> pairs data = Some (p # ps)"
    then have "fetchTokenMarket r = Inr (scan_best p ps)"
      by (simp add: fetchTokenMarket_def keepBest_self foldl_keepBest_scan)
    then show "\<exists>q \<in> set (p # ps). fetchTokenMarket r = Inr q"
      using scan_best_mem [of p ps] by blast
  qed
  have single: "fetchTokenMarket (ok_response (Some [p])) = Inr p"
    by (simp add: fetchTokenMarket_def ok_response_def keepBest_self)
  have status: "r = Resolved res \<and> \<not> res_ok res
        \<longrightarrow> fetchTokenMarket r = Inl (Error (''Failed to fetch: '' @ showNat (res_status res)))"
    by (simp add: fetchTokenMarket_def)
  from iff mem single status show ?thesis by blast
qed

theorem token_not_found_iff_witness:
  "fetchTokenMarket (ok_response (Some [])) = Inl (Error ''Token not found on DexScreener'')
   \<and> fetchTokenMarket (ok_response None) = Inl (Error ''Token not found on DexScreener'')
   \<and> fetchTokenMarket (ok_response (Some [sample_pair ''D'' None, sample_pair ''E'' (Some \<lparr> usd = Some 0 \<rparr>)]))
       = Inr (sample_pair ''D'' None)
   \<and> fetchTokenMarket (Resolved \<lparr> res_ok = False, res_status = 404, res_json = NotJson ''Unexpected token'' \<rparr>)
       = Inl (Error ''Failed to fetch: 404'')"
proof -
  have a: "fetchTokenMarket (ok_response (Some [])) = Inl (Error ''Token not found on DexScreener'')"
    using token_not_found_iff [of "ok_response (Some [])"] by (simp add: ok_response_def)
  have b: "fetchTokenMarket (ok_response None) = Inl (Error ''Token not found on DexScreener'')"
    using token_not_found_iff [of "ok_response None"] by (simp add: ok_response_def)
  have c: "fetchTokenMarket (ok_response (Some [sample_pair ''D'' None, sample_pair ''E'' (Some \<lparr> usd = Some 0 \<rparr>)]))
       = Inr (sample_pair ''D'' None)"
    by (simp add: fetchTokenMarket_def ok_response_def keepBest_def liquidity_usd_or_0_def sample_pair_def)
  have d: "fetchTokenMarket (Resolved \<lparr> res_ok = False, res_status = 404, res_json = NotJson ''Unexpected token'' \<rparr>)
       = Inl (Error ''Failed to fetch: 404'')"
    using token_not_found_iff [of "Resolved \<lparr> res_ok = False, res_status = 404, res_json = NotJson ''Unexpected token'' \<rparr>"
        "\<lparr> res_ok = False, res_status = 404, res_json = NotJson ''Unexpected token'' \<rparr>"]
    by (simp add: showNat.simps)
  from a b c d show ?thesis by blast
qed

subsection \<open>The wallet screen\<close>

text \<open>
  Claim C2. For an address that is not blank: when one of \<^verbatim>\<open>getBalance\<close>, \<^verbatim>\<open>getTokens\<close>,
  \<^verbatim>\<open>getTxns\<close> rejects, the joined promise rejects, with the reason of a sub-query that
  rejected (of the one that did, when only one did). \<^verbatim>\<open>search\<close> then shows the alert
  \<^verbatim>\<open>Error\<close> with the message of that reason and leaves the balance, the token holdings and
  the transactions as they were: no part of a snapshot is stored.
\<close>

theorem wallet_fetch_fails_atomically:
  "trim (address st) = a \<Longrightarrow> a \<noteq> [] \<Longrightarrow>
   isl (getBalance e a) \<or> isl (getTokens e a) \<or> isl (getTxns e a) \<Longrightarrow>
     \<exists>x. fetchWallet e a = Inl x
        \<and> (getBalance e a = Inl x \<or> getTokens e a = Inl x \<or> getTxns e a = Inl x)
        \<and> balance (search e st) = balance st
        \<and> tokens (search e st) = tokens st
        \<and> txns (search e st) = txns st
        \<and> alerts (search e st) = alerts st @ [(''Error'', Some (message x))]"
proof -
  assume a: "trim (address st) = a" and ne: "a \<noteq> []"
    and rej: "isl (getBalance e a) \<or> isl (getTokens e a) \<or> isl (getTxns e a)"
  from rej obtain x where
    x: "fetchWallet e a = Inl x"
    and which: "getBalance e a = Inl x \<or> getTokens e a = Inl x \<or> getTxns e a = Inl x"
    unfolding fetchWallet_def using Promise_all3_rejected by blast
  have "search e st =
      st\<lparr> loading := False, requests := requests st @ wallet_requests a,
           alerts := alerts st @ [(''Error'', Some (message x))] \<rparr>"
    using a ne x by (simp add: search_nonempty)
  then have "balance (search e st) = balance st" "tokens (search e st) = tokens st"
    "txns (search e st) = txns st"
    "alerts (search e st) = alerts st @ [(''Error'', Some (message x))]"
    by simp_all
  with x which show ?thesis by blast
qed

theorem wallet_fetch_fails_atomically_witness:
  "trim (address (sample_state ''  abc '')) = ''abc''
   \<and> isl (getTokens failing_env ''abc'')
   \<and> fetchWallet failing_env ''abc'' = Inl (Error ''Invalid param: WrongSize'')
   \<and> balance (search failing_env (sample_state ''  abc '')) = Some 1
   \<and> tokens (search failing_env (sample_state ''  abc '')) = []
   \<and> txns (search failing_env (sample_state ''  abc '')) = []
   \<and> alerts (search failing_env (sample_state ''  abc ''))
       = [(''Error'', Some ''Invalid param: WrongSize'')]"
proof -
  have h1: "trim (address (sample_state ''  abc '')) = ''abc''"
    by (simp add: sample_state_def sample_trim)
  have h2: "''abc'' \<noteq> []" by simp
  have h3: "isl (getBalance failing_env ''abc'') \<or> isl (getTokens failing_env ''abc'')
            \<or> isl (getTxns failing_env ''abc'')"
    by (simp add: failing_tokens)
  from wallet_fetch_fails_atomically [OF h1 h2 h3] obtain x where
    x: "fetchWallet failing_env ''abc'' = Inl x"
    and which: "getBalance failing_env ''abc'' = Inl x \<or> getTokens failing_env ''abc'' = Inl x
                \<or> getTxns failing_env ''abc'' = Inl x"
    and rest: "balance (search failing_env (sample_state ''  abc '')) = balance (sample_state ''  abc '')"
      "tokens (search failing_env (sample_state ''  abc '')) = tokens (sample_state ''  abc '')"
      "txns (search failing_env (sample_state ''  abc '')) = txns (sample_state ''  abc '')"
      "alerts (search failing_env (sample_state ''  abc ''))
         = alerts (sample_state ''  abc '') @ [(''Error'', Some (message x))]"
    by blast
  from which have "x = Error ''Invalid param: WrongSize''"
    using failing_others by (auto simp: failing_tokens)
  with x rest h1 show ?thesis
    by (simp add: sample_state_def failing_tokens)
qed

text \<open>
  Claim C9. When the typed address is empty after trimming, that is when it consists of
  white space only, \<^verbatim>\<open>search\<close> reports \<^verbatim>\<open>Enter a wallet address\<close> and returns: it sends none
  of the three requests, and the loading flag, the balance, the holdings and the
  transactions stay as they were. (For any other address the three requests are sent:
  \<open>search_sends_three_requests\<close>.)
\<close>

theorem blank_address_sends_nothing:
  "trim (address st) = [] \<Longrightarrow>
     (\<forall>c \<in> set (address st). isWhiteSpace c)
   \<and> search e st = st\<lparr> alerts := alerts st @ [(''Enter a wallet address'', None)] \<rparr>
   \<and> requests (search e st) = requests st
   \<and> loading (search e st) = loading st
   \<and> balance (search e st) = balance st
   \<and> tokens (search e st) = tokens st
   \<and> txns (search e st) = txns st"
  by (simp add: search_def trim_empty_iff)

theorem blank_address_sends_nothing_witness:
  "trim (address (sample_state [CHR 0x20, CHR 0x09, CHR 0x0A])) = []
   \<and> search sample_env (sample_state [CHR 0x20, CHR 0x09, CHR 0x0A])
       = (sample_state [CHR 0x20, CHR 0x09, CHR 0x0A])
           \<lparr> alerts := [(''Enter a wallet address'', None)] \<rparr>
   \<and> requests (search sample_env (sample_state [CHR 0x20, CHR 0x09, CHR 0x0A])) = []
   \<and> requests (search sample_env (sample_state ''abc'')) = wallet_requests ''abc''"
proof -
  have h: "trim (address (sample_state [CHR 0x20, CHR 0x09, CHR 0x0A])) = []"
    by (simp add: sample_state_def trim_def isWhiteSpace_def)
  have "trim (address (sample_state ''abc'')) = ''abc''"
    by (simp add: sample_state_def trim_def isWhiteSpace_def)
  then have "requests (search sample_env (sample_state ''abc'')) = wallet_requests ''abc''"
    using search_sends_three_requests [of "sample_state ''abc''" sample_env]
    by (simp add: sample_state_def)
  with h blank_address_sends_nothing [OF h, of sample_env] show ?thesis
    by (simp add: sample_state_def)
qed

subsection \<open>The answer of \<^verbatim>\<open>rpc\<close>\<close>

text \<open>
  The statement of claim C4 as it is written fails on a body whose \<^verbatim>\<open>error\<close> member is
  \<^verbatim>\<open>null\<close>, the shape of a successful JSON-RPC 1.0 answer: the body contains an \<^verbatim>\<open>error\<close>
  member, and \<^verbatim>\<open>rpc\<close> returns the result.
\<close>

theorem rpc_null_error_member_counterexample:
  "error \<lparr> error = JNull, result = Some (7 :: int) \<rparr> \<noteq> JUndefined
   \<and> rpc sample_ToString (Parsed \<lparr> error = JNull, result = Some (7 :: int) \<rparr>) = Inr (Some 7)
   \<and> \<not> isl (rpc sample_ToString (Parsed \<lparr> error = JNull, result = Some (7 :: int) \<rparr>))"
  by simp

text \<open>
  Claim C4, amended. The JSON literal \<^verbatim>\<open>null\<close> as body makes \<^verbatim>\<open>rpc\<close> throw a
  \<^verbatim>\<open>TypeError\<close>. For every other parsed body: when the \<^verbatim>\<open>error\<close> member is truthy, \<^verbatim>\<open>rpc\<close>
  throws an \<^verbatim>\<open>Error\<close> made from the \<^verbatim>\<open>message\<close> member of that value; its message is the
  server's message when that is a string, and the empty string when the error object has
  no \<^verbatim>\<open>message\<close> member. When the \<^verbatim>\<open>error\<close> member is missing or falsy (\<^verbatim>\<open>null\<close>, \<^verbatim>\<open>false\<close>,
  \<^verbatim>\<open>0\<close>, the empty string), \<^verbatim>\<open>rpc\<close> returns the \<^verbatim>\<open>result\<close> member.
\<close>

theorem rpc_truthy_error_or_result:
  "rpc toStr (ParsedNull :: 'r fetch_outcome) = Inl (TypeError ''Cannot read property error of null'')
   \<and> (truthy (error body) \<longrightarrow>
      (\<exists>m. getProp (error body) ''message'' = Inr m
          \<and> rpc toStr (Parsed body) = Inl (Error_new toStr m)))
   \<and> (error body = JObj kvs \<and> map_of kvs ''message'' = Some (JStr s) \<longrightarrow>
        rpc toStr (Parsed body) = Inl (Error s))
   \<and> (error body = JObj kvs \<and> map_of kvs ''message'' = None \<longrightarrow>
        rpc toStr (Parsed body) = Inl (Error []))
   \<and> (\<not> truthy (error body) \<longrightarrow> rpc toStr (Parsed body) = Inr (result body))
   \<and> ((\<not> truthy (error body))
        = (error body = JUndefined \<or> error body = JNull \<or> error body = JBool False
           \<or> error body = JNum 0 \<or> error body = JStr []))"
proof -
  have t: "truthy (error body) \<longrightarrow>
      (\<exists>m. getProp (error body) ''message'' = Inr m
          \<and> rpc toStr (Parsed body) = Inl (Error_new toStr m))"
  proof
    assume tr: "truthy (error body)"
    then obtain m where m: "getProp (error body) ''message'' = Inr m"
      using truthy_getProp by blast
    with tr have "rpc toStr (Parsed body) = Inl (Error_new toStr m)" by simp
    with m show "\<exists>m. getProp (error body) ''message'' = Inr m
          \<and> rpc toStr (Parsed body) = Inl (Error_new toStr m)" by blast
  qed
  have str: "error body = JObj kvs \<and> map_of kvs ''message'' = Some (JStr s) \<longrightarrow>
        rpc toStr (Parsed body) = Inl (Error s)"
    by (simp add: Error_new_def)
  have none: "error body = JObj kvs \<and> map_of kvs ''message'' = None \<longrightarrow>
        rpc toStr (Parsed body) = Inl (Error [])"
    by (simp add: Error_new_def)
  have f: "\<not> truthy (error body) \<longrightarrow> rpc toStr (Parsed body) = Inr (result body)"
    by simp
  have n: "rpc toStr (ParsedNull :: 'r fetch_outcome) = Inl (TypeError ''Cannot read property error of null'')"
    by simp
  from n t str none f falsy_iff [of "error body"] show ?thesis by blast
qed

theorem rpc_truthy_error_or_result_witness:
  "rpc sample_ToString
      (Parsed \<lparr> error = JObj [(''code'', JNum (- 32602)), (''message'', JStr ''Invalid params'')],
                result = (None :: int option) \<rparr>)
     = Inl (Error ''Invalid params'')
   \<and> rpc sample_ToString (Parsed \<lparr> error = JUndefined, result = Some (7 :: int) \<rparr>) = Inr (Some 7)
   \<and> rpc sample_ToString (Parsed \<lparr> error = JStr ''rate limited'', result = (None :: int option) \<rparr>)
       = Inl (Error [])"
proof -
  have a: "rpc sample_ToString
      (Parsed \<lparr> error = JObj [(''code'', JNum (- 32602)), (''message'', JStr ''Invalid params'')],
                result = (None :: int option) \<rparr>)
     = Inl (Error ''Invalid params'')"
    using rpc_truthy_error_or_result
      [where body = "\<lparr> error = JObj [(''code'', JNum (- 32602)), (''message'', JStr ''Invalid params'')],
              result = (None :: int option) \<rparr>"
         and kvs = "[(''code'', JNum (- 32602)), (''message'', JStr ''Invalid params'')]"
         and s = "''Invalid params''" and toStr = sample_ToString]
    by simp
  have b: "rpc sample_ToString (Parsed \<lparr> error = JUndefined, result = Some (7 :: int) \<rparr>) = Inr (Some 7)"
    using rpc_truthy_error_or_result
      [where body = "\<lparr> error = JUndefined, result = Some (7 :: int) \<rparr>" and toStr = sample_ToString]
    by simp
  have c: "rpc sample_ToString (Parsed \<lparr> error = JStr ''rate limited'', result = (None :: int option) \<rparr>)
       = Inl (Error [])"
    using rpc_truthy_error_or_result
      [where body = "\<lparr> error = JStr ''rate limited'', result = (None :: int option) \<rparr>"
         and toStr = sample_ToString]
    by (simp add: Error_new_def)
  from a b c show ?thesis by blast
qed

subsection \<open>The lists of \<^verbatim>\<open>getTokens\<close> and \<^verbatim>\<open>getTxns\<close>\<close>

text \<open>
  Claim C5. When the RPC call returns a result, the holdings of \<^verbatim>\<open>getTokens\<close> are the
  entries of the token-account list whose \<^verbatim>\<open>uiAmount\<close> is a number greater than 0, each
  mapped to its mint and amount, in the order of the response; an entry with an amount
  that is 0, negative or \<^verbatim>\<open>null\<close> is dropped. Every holding has a positive amount, and an
  empty (or missing) account list gives the empty list, not an error.
\<close>

theorem token_holdings_positive_in_order:
  "rpc (ToString e) (fetch_getTokenAccountsByOwner e a) = Inr (Some res) \<Longrightarrow>
   accounts = (case value res of None \<Rightarrow> [] | Some as \<Rightarrow> as) \<Longrightarrow>
     (\<exists>hs. getTokens e a = Inr hs
        \<and> hs = map (\<lambda>x. \<lparr> mint = account_data_parsed_info_mint x,
                            amount = account_data_parsed_info_tokenAmount_uiAmount x \<rparr>)
                   (filter (\<lambda>x. \<exists>v. account_data_parsed_info_tokenAmount_uiAmount x = Some v \<and> 0 < v)
                           accounts)
        \<and> (\<forall>h \<in> set hs. \<exists>v. amount h = Some v \<and> 0 < v)
        \<and> (accounts = [] \<longrightarrow> hs = []))"
proof -
  assume r: "rpc (ToString e) (fetch_getTokenAccountsByOwner e a) = Inr (Some res)"
    and acc: "accounts = (case value res of None \<Rightarrow> [] | Some as \<Rightarrow> as)"
  let ?conv = "\<lambda>x. \<lparr> mint = account_data_parsed_info_mint x,
                      amount = account_data_parsed_info_tokenAmount_uiAmount x \<rparr>"
  let ?hs = "filter (\<lambda>t. gt0 (amount t)) (map ?conv accounts)"
  have run: "getTokens e a = Inr ?hs"
    using r acc by (simp add: getTokens_def)
  have shape: "?hs = map ?conv
      (filter (\<lambda>x. \<exists>v. account_data_parsed_info_tokenAmount_uiAmount x = Some v \<and> 0 < v) accounts)"
    by (simp add: filter_map comp_def gt0_iff)
  have pos: "\<forall>h \<in> set ?hs. \<exists>v. amount h = Some v \<and> 0 < v"
    by (simp add: gt0_iff)
  have empty: "accounts = [] \<longrightarrow> ?hs = []" by simp
  from run shape pos empty show ?thesis by metis
qed

theorem token_holdings_positive_in_order_witness:
  "rpc (ToString sample_env) (fetch_getTokenAccountsByOwner sample_env ''abc'')
     = Inr (Some \<lparr> value = Some [sample_account ''MintA'' (Some 12), sample_account ''MintB'' (Some 0),
                                 sample_account ''MintC'' None, sample_account ''MintD'' (Some 3)] \<rparr>)
   \<and> getTokens sample_env ''abc''
       = Inr [\<lparr> mint = ''MintA'', amount = Some 12 \<rparr>, \<lparr> mint = ''MintD'', amount = Some 3 \<rparr>]"
proof -
  have h: "rpc (ToString sample_env) (fetch_getTokenAccountsByOwner sample_env ''abc'')
     = Inr (Some \<lparr> value = Some [sample_account ''MintA'' (Some 12), sample_account ''MintB'' (Some 0),
                                 sample_account ''MintC'' None, sample_account ''MintD'' (Some 3)] \<rparr>)"
    by (simp add: sample_env_def)
  from token_holdings_positive_in_order [OF h refl] h show ?thesis
    by (auto simp: sample_account_def)
qed



subsection \<open>The regimes of \<^verbatim>\<open>formatPrice\<close>\<close>




subsection \<open>The buckets of \<^verbatim>\<open>timeAgo\<close>\<close>





end
